theory Spec2Isabelle
  imports Main "HOL-Library.Word"
begin

section \<open>The Tab5 hardware abstraction layer (hal\_esp32.cpp)\<close>

text \<open>
  The class \<open>HalEsp32\<close> binds the application's hardware interface to the vendor SDK.
  Every call into the SDK is an effect: the model lists the calls a function makes, in
  program order, and takes what the SDK answers as an argument.
\<close>

subsection \<open>SDK types and constants\<close>

type_synonym uint8_t = "8 word"
type_synonym uint16_t = "16 word"
type_synonym int32_t = "32 word"

text \<open>\<open>esp_err_t\<close> is a C \<open>int\<close>; \<open>ESP_OK\<close> is 0 in esp\_err.h of the SDK.\<close>

type_synonym esp_err_t = int

definition ESP_OK :: esp_err_t where
  "ESP_OK = 0"

text \<open>\<open>gpio_num_t\<close> is an enumeration whose member \<open>GPIO_NUM_k\<close> has the value k.\<close>

type_synonym gpio_num_t = int

datatype gpio_drive_cap_t =
  GPIO_DRIVE_CAP_0 | GPIO_DRIVE_CAP_1 | GPIO_DRIVE_CAP_2 | GPIO_DRIVE_CAP_3

text \<open>The two I2C buses: what \<open>bsp_i2c_get_handle\<close> and \<open>bsp_ext_i2c_get_handle\<close> return.\<close>

datatype i2c_master_bus_handle_t = Bsp_i2c_handle | Bsp_ext_i2c_handle

text \<open>
  \<open>struct dirent\<close>, as far as the scan reads it. \<open>DT_DIR\<close> is 2 in the SDK's
  sys/dirent.h; the properties below are stated for the constant, and only the sample
  inputs use the number.
\<close>

record dirent =
  d_name :: string
  d_type :: uint8_t

definition DT_DIR :: uint8_t where
  "DT_DIR = 2"

text \<open>\<open>hal::HalBase::FileEntry_t\<close>.\<close>

record FileEntry_t =
  name :: string
  isDir :: bool

subsection \<open>Calls into the SDK\<close>

text \<open>An argument of a format string (\<open>{}\<close> of mclog, \<open>%d\<close> and \<open>%s\<close> of printf).\<close>

datatype fmt_arg = ArgStr string | ArgInt int | ArgErrName esp_err_t

text \<open>
  One constructor per SDK function the modelled code calls, with the arguments of the call
  and, where the code reads it, the value the call returned.
\<close>

datatype call =
    TagInfo string string "fmt_arg list"
  | LogError string "fmt_arg list"
  | Printf string "fmt_arg list"
  | Fflush_stdout
  | Bsp_display_brightness_set int
  | Bsp_sdcard_init string int esp_err_t
  | Bsp_sdcard_deinit string
  | Opendir string bool
  | Readdir "dirent option"
  | Closedir
  | I2c_master_probe i2c_master_bus_handle_t uint8_t int esp_err_t
  | Gpio_set_drive_capability gpio_num_t gpio_drive_cap_t esp_err_t

text \<open>\<open>static const std::string _tag = "hal"\<close>.\<close>

definition tag :: string where
  "tag = ''hal''"

subsection \<open>The object\<close>

text \<open>The private data members of \<open>HalEsp32\<close> (hal\_esp32.h), without their leading underscore.\<close>

record HalEsp32 =
  current_lcd_brightness :: uint8_t
  charge_qc_enable :: bool
  charge_enable :: bool
  ext_5v_enable :: bool
  usba_5v_enable :: bool
  ext_antenna_enable :: bool
  sd_card_mounted :: bool

text \<open>The default member initialisers of the header.\<close>

definition HalEsp32_new :: HalEsp32 where
  "HalEsp32_new =
     \<lparr>current_lcd_brightness = 100,
      charge_qc_enable = False,
      charge_enable = True,
      ext_5v_enable = True,
      usba_5v_enable = True,
      ext_antenna_enable = False,
      sd_card_mounted = False\<rparr>"

subsection \<open>The LVGL touchpad read callback\<close>

datatype lv_indev_state_t = LV_INDEV_STATE_REL | LV_INDEV_STATE_PR

text \<open>
  \<open>lv_indev_data_t\<close>: the point and the state are the fields the callback writes; the
  other fields of the structure are the record's extension.
\<close>

record lv_indev_data_t =
  point_x :: int32_t
  point_y :: int32_t
  state :: lv_indev_state_t

text \<open>
  What \<open>esp_lcd_touch_get_coordinates\<close> delivers for one point: its return value and the
  first elements of the coordinate arrays it fills.
\<close>

record touch_coordinates =
  touchpad_pressed :: bool
  touch_x0 :: uint16_t
  touch_y0 :: uint16_t

text \<open>
  The global \<open>_lcd_touch_handle\<close> is \<open>None\<close> when it is \<open>NULL\<close>. The assignment of
  a \<open>uint16_t\<close> to a coordinate (a 32-bit integer) extends it with zeros.
\<close>

definition lvgl_read_cb ::
  "'h option \<Rightarrow> ('h \<Rightarrow> touch_coordinates) \<Rightarrow>
   'a lv_indev_data_t_scheme \<Rightarrow> 'a lv_indev_data_t_scheme" where
  "lvgl_read_cb lcd_touch_handle esp_lcd_touch_get_coordinates data =
     (case lcd_touch_handle of
        None \<Rightarrow> data\<lparr>state := LV_INDEV_STATE_REL\<rparr>
      | Some h \<Rightarrow>
          (let c = esp_lcd_touch_get_coordinates h in
           if \<not> touchpad_pressed c then data\<lparr>state := LV_INDEV_STATE_REL\<rparr>
           else data\<lparr>state := LV_INDEV_STATE_PR,
                     point_x := ucast (touch_x0 c),
                     point_y := ucast (touch_y0 c)\<rparr>))"

subsection \<open>GPIO drive capability\<close>

text \<open>\<open>_driver_gpios\<close>.\<close>

definition driver_gpios :: "gpio_num_t list" where
  "driver_gpios =
     [0, 1,
      8, 9, 10, 11, 12, 13, 15,
      22, 23,
      26, 27, 28, 29, 30,
      31, 32,
      39, 40, 41, 42, 43, 44]"

text \<open>
  The loop of \<open>set_gpio_output_capability\<close> from index \<open>i\<close> on. The bound
  \<open>sizeof(_driver_gpios) / sizeof(_driver_gpios[0])\<close> is the number of elements. The
  argument \<open>gpio_set_drive_capability\<close> gives the status the SDK returns for a pin.
\<close>

function gpio_loop :: "(gpio_num_t \<Rightarrow> esp_err_t) \<Rightarrow> nat \<Rightarrow> call list" where
  "gpio_loop gpio_set_drive_capability i =
     (if i < length driver_gpios then
        (let gpio = driver_gpios ! i;
             ret = gpio_set_drive_capability gpio
         in [Gpio_set_drive_capability gpio GPIO_DRIVE_CAP_0 ret,
             if ret = ESP_OK
             then Printf ''GPIO %d drive capability set to GPIO_DRIVE_CAP_0\<newline>'' [ArgInt gpio]
             else Printf ''Failed to set GPIO %d drive capability: %s\<newline>''
                    [ArgInt gpio, ArgErrName ret]]
            @ gpio_loop gpio_set_drive_capability (i + 1))
      else [])"
  by pat_completeness auto
termination
  by (relation "measure (\<lambda>(f, i). length driver_gpios - i)") auto

declare gpio_loop.simps [simp del]

definition set_gpio_output_capability :: "(gpio_num_t \<Rightarrow> esp_err_t) \<Rightarrow> call list" where
  "set_gpio_output_capability gpio_set_drive_capability =
     gpio_loop gpio_set_drive_capability 0"

subsection \<open>Initialisation\<close>

text \<open>
  \<open>HalEsp32::init\<close> is straight-line code: these are the calls it makes, in program
  order. \<open>Log\<close> is a call of \<open>mclog::tagInfo\<close> with the message, \<open>Sdk\<close> a call of a
  function of the SDK, \<open>Method\<close> a call of a member function of the object or of one of
  its member objects.
\<close>

datatype init_stmt = Log string | Sdk string | Method string

definition init_body :: "init_stmt list" where
  "init_body =
     [Log ''init'',
      Log ''camera init'', Sdk ''bsp_cam_osc_init'',
      Log ''i2c init'', Sdk ''bsp_i2c_init'',
      Log ''io expander init'', Sdk ''bsp_i2c_get_handle'', Sdk ''bsp_io_expander_pi4ioe_init'',
      Method ''setChargeQcEnable'', Method ''delay'', Method ''setChargeEnable'',
      Log ''i2c scan'', Sdk ''bsp_i2c_scan'',
      Log ''codec init'', Method ''delay'', Sdk ''bsp_codec_init'',
      Log ''imu init'', Method ''imu_init'',
      Log ''ina226 init'', Method ''ina226.begin'', Method ''ina226.configure'',
      Method ''ina226.calibrate'', Method ''ina226.readBusVoltage'', Log ''bus voltage: {}'',
      Log ''rx8130 init'', Method ''rx8130.begin'', Method ''rx8130.initBat'',
      Method ''clearRtcIrq'', Method ''update_system_time'',
      Log ''display init'', Sdk ''bsp_reset_tp'', Sdk ''bsp_display_start_with_config'',
      Sdk ''lv_display_set_rotation'', Sdk ''bsp_display_backlight_on'',
      Log ''create lvgl touchpad indev'', Sdk ''lv_indev_create'', Sdk ''lv_indev_set_type'',
      Sdk ''lv_indev_set_read_cb'', Sdk ''lv_indev_set_display'',
      Log ''usb host init'', Sdk ''bsp_usb_host_start'',
      Log ''hid init'', Method ''hid_init'',
      Log ''rs485 init'', Method ''rs485_init'',
      Log ''set gpio output capability'', Method ''set_gpio_output_capability'',
      Sdk ''bsp_display_unlock'']"

subsection \<open>Display brightness\<close>

text \<open>\<open>std::clamp(v, lo, hi)\<close>.\<close>

definition std_clamp :: "int \<Rightarrow> int \<Rightarrow> int \<Rightarrow> int" where
  "std_clamp v lo hi = (if v < lo then lo else if hi < v then hi else v)"

text \<open>
  The argument is converted to \<open>int\<close>, clamped, and the result converted back to the
  \<open>uint8_t\<close> member.
\<close>

definition setDisplayBrightness :: "uint8_t \<Rightarrow> HalEsp32 \<Rightarrow> HalEsp32 \<times> call list" where
  "setDisplayBrightness brightness self =
     (let self' = self\<lparr>current_lcd_brightness := word_of_int (std_clamp (uint brightness) 0 100)\<rparr>
      in (self',
          [TagInfo ''hal'' ''set display brightness: {}%''
             [ArgInt (uint (current_lcd_brightness self'))],
           Bsp_display_brightness_set (uint (current_lcd_brightness self'))]))"


subsection \<open>SD card\<close>

text \<open>
  The body of \<open>isSdCardMounted\<close> is \<open>return true;\<close>. The statement
  \<open>return _sd_card_mounted;\<close> is commented out in the source.
\<close>

definition isSdCardMounted :: "HalEsp32 \<Rightarrow> bool" where
  "isSdCardMounted self = True"

text \<open>
  What the SDK and the file system answer during one scan: the status of
  \<open>bsp_sdcard_init\<close>, and for a path either no handle (\<open>opendir\<close> returns
  \<open>nullptr\<close>) or the entries \<open>readdir\<close> will yield on the handle, in that order, before it
  returns \<open>nullptr\<close>.
\<close>

record sd_card =
  bsp_sdcard_init_ret :: esp_err_t
  opendir_ret :: "string \<Rightarrow> dirent list option"

text \<open>
  The \<open>while\<close> loop of \<open>scanSdCard\<close>: the first argument is what is left of the
  directory stream, the second the vector \<open>file_entries\<close>. Each iteration is one call of
  \<open>readdir\<close>.
\<close>

fun scan_loop :: "dirent list \<Rightarrow> FileEntry_t list \<Rightarrow> FileEntry_t list \<times> call list" where
  "scan_loop [] file_entries = (file_entries, [Readdir None])"
| "scan_loop (entry # dir) file_entries =
     (if d_name entry = ''.'' \<or> d_name entry = ''..'' then
        (let (r, t) = scan_loop dir file_entries
         in (r, Readdir (Some entry) # t))
      else
        (let file_entry = \<lparr>name = d_name entry, isDir = (d_type entry = DT_DIR)\<rparr>;
             (r, t) = scan_loop dir (file_entries @ [file_entry])
         in (r, Readdir (Some entry) # t)))"

definition scanSdCard ::
  "sd_card \<Rightarrow> HalEsp32 \<Rightarrow> string \<Rightarrow> FileEntry_t list \<times> HalEsp32 \<times> call list" where
  "scanSdCard sd self dirPath =
     (let file_entries = [];
          t0 = [TagInfo tag ''init sd card'' [],
                Bsp_sdcard_init ''/sd'' 25 (bsp_sdcard_init_ret sd)]
      in
      if bsp_sdcard_init_ret sd \<noteq> ESP_OK then
        (file_entries, self, t0 @ [LogError ''failed to mount sd card'' []])
      else
        (let self1 = self\<lparr>sd_card_mounted := True\<rparr>;
             target_path = ''/sd/'' @ dirPath
         in
         case opendir_ret sd target_path of
           None \<Rightarrow>
             (file_entries,
              self1\<lparr>sd_card_mounted := False\<rparr>,
              t0 @ [Opendir target_path False,
                    LogError ''failed to open directory: {}'' [ArgStr target_path],
                    Bsp_sdcard_deinit ''/sd''])
         | Some dir \<Rightarrow>
             (let (entries, t1) = scan_loop dir file_entries
              in (entries,
                  self1\<lparr>sd_card_mounted := False\<rparr>,
                  t0 @ [Opendir target_path True] @ t1 @
                    [Closedir,
                     TagInfo tag ''deinit sd card'' [],
                     Bsp_sdcard_deinit ''/sd'']))))"

subsection \<open>I2C scan\<close>

text \<open>
  The inner loop of \<open>i2cScan\<close> from \<open>j\<close> on, for the outer \<open>i\<close>. The address is a
  \<open>uint8_t\<close>: the sum is truncated to eight bits. The argument \<open>i2c_master_probe\<close> gives
  the status the SDK returns for a bus and an address; the timeout is 50.
\<close>

function i2c_inner ::
  "(i2c_master_bus_handle_t \<Rightarrow> uint8_t \<Rightarrow> esp_err_t) \<Rightarrow> i2c_master_bus_handle_t \<Rightarrow>
   int \<Rightarrow> int \<Rightarrow> uint8_t list \<Rightarrow> uint8_t list \<times> call list" where
  "i2c_inner i2c_master_probe i2c_bus_handle i j addrs =
     (if j < 16 then
        (let address = (word_of_int (i + j) :: uint8_t) in
         if 0x78 \<le> address then
           (let (r, t) = i2c_inner i2c_master_probe i2c_bus_handle i (j + 1) addrs
            in (r, Fflush_stdout # t))
         else
           (let ret = i2c_master_probe i2c_bus_handle address;
                addrs' = (if ret = ESP_OK then addrs @ [address] else addrs);
                (r, t) = i2c_inner i2c_master_probe i2c_bus_handle i (j + 1) addrs'
            in (r, Fflush_stdout # I2c_master_probe i2c_bus_handle address 50 ret # t)))
      else (addrs, []))"
  by pat_completeness auto
termination
  by (relation "measure (\<lambda>(p, h, i, j, addrs). nat (16 - j))") auto

declare i2c_inner.simps [simp del]

text \<open>The outer loop: \<open>i\<close> starts at 16 and advances by 16 while it is below 128.\<close>

function i2c_outer ::
  "(i2c_master_bus_handle_t \<Rightarrow> uint8_t \<Rightarrow> esp_err_t) \<Rightarrow> i2c_master_bus_handle_t \<Rightarrow>
   int \<Rightarrow> uint8_t list \<Rightarrow> uint8_t list \<times> call list" where
  "i2c_outer i2c_master_probe i2c_bus_handle i addrs =
     (if i < 128 then
        (let (addrs1, t1) = i2c_inner i2c_master_probe i2c_bus_handle i 0 addrs;
             (addrs2, t2) = i2c_outer i2c_master_probe i2c_bus_handle (i + 16) addrs1
         in (addrs2, t1 @ t2))
      else (addrs, []))"
  by pat_completeness auto
termination
  by (relation "measure (\<lambda>(p, h, i, addrs). nat (128 - i))") auto

declare i2c_outer.simps [simp del]

definition i2cScan ::
  "(i2c_master_bus_handle_t \<Rightarrow> uint8_t \<Rightarrow> esp_err_t) \<Rightarrow> bool \<Rightarrow> uint8_t list \<times> call list" where
  "i2cScan i2c_master_probe isInternal =
     (let i2c_bus_handle = (if isInternal then Bsp_i2c_handle else Bsp_ext_i2c_handle)
      in i2c_outer i2c_master_probe i2c_bus_handle 16 [])"

subsection \<open>Member functions defined in other files\<close>

text \<open>
  The member functions that hal\_esp32.h declares and hal\_esp32.cpp does not define: the
  public ones, and the private ones.
\<close>

definition defined_elsewhere_public :: "string list" where
  "defined_elsewhere_public =
     [''updatePowerMonitorData'', ''updateImuData'', ''clearImuIrq'',
      ''setChargeQcEnable'', ''getChargeQcEnable'', ''setChargeEnable'', ''getChargeEnable'',
      ''setUsb5vEnable'', ''getUsb5vEnable'', ''setExt5vEnable'', ''getExt5vEnable'',
      ''powerOff'', ''sleepAndTouchWakeup'', ''sleepAndShakeWakeup'', ''sleepAndRtcWakeup'',
      ''startCameraCapture'', ''stopCameraCapture'', ''isCameraCapturing'',
      ''setSpeakerVolume'', ''getSpeakerVolume'', ''audioRecord'', ''audioPlay'',
      ''startDualMicRecordTest'', ''getDualMicRecordTestState'',
      ''startHeadphoneMicRecordTest'', ''getHeadphoneMicRecordTestState'',
      ''startPlayMusicTest'', ''getMusicPlayTestState'', ''stopPlayMusicTest'',
      ''playStartupSfx'', ''playShutdownSfx'',
      ''setExtAntennaEnable'', ''getExtAntennaEnable'', ''startWifiAp'',
      ''usbADetect'']"

definition defined_elsewhere_private :: "string list" where
  "defined_elsewhere_private = [''hid_init'', ''rs485_init'', ''wifi_init'', ''imu_init'']"

text \<open>
  What a member function defined in another file assigns to the flags of the object:
  \<open>None\<close> leaves a flag as it is.
\<close>

record flag_writes =
  to_charge_qc_enable :: "bool option"
  to_charge_enable :: "bool option"
  to_ext_5v_enable :: "bool option"
  to_usba_5v_enable :: "bool option"
  to_ext_antenna_enable :: "bool option"

text \<open>
  Modelled from the spec: the bodies of the member functions listed in
  \<open>defined_elsewhere_public\<close> and \<open>defined_elsewhere_private\<close> are missing from the
  sources at hand. The spec describes the class as one-line pass-through calls into the
  vendor SDK, with no state beyond simple boolean flags mirroring chip state, and it
  names \<open>scanSdCard\<close> as the only operation that writes \<open>_sd_card_mounted\<close> and
  \<open>setDisplayBrightness\<close> as the only operation that writes
  \<open>_current_lcd_brightness\<close>. So such a function calls the SDK and, of the data
  members, assigns at most the five flags that mirror the state of a chip, to any values;
  what it assigns is the argument.
\<close>

definition defined_elsewhere :: "flag_writes \<Rightarrow> HalEsp32 \<Rightarrow> HalEsp32" where
  "defined_elsewhere w self =
     self\<lparr>charge_qc_enable :=
            (case to_charge_qc_enable w of None \<Rightarrow> charge_qc_enable self | Some b \<Rightarrow> b),
          charge_enable :=
            (case to_charge_enable w of None \<Rightarrow> charge_enable self | Some b \<Rightarrow> b),
          ext_5v_enable :=
            (case to_ext_5v_enable w of None \<Rightarrow> ext_5v_enable self | Some b \<Rightarrow> b),
          usba_5v_enable :=
            (case to_usba_5v_enable w of None \<Rightarrow> usba_5v_enable self | Some b \<Rightarrow> b),
          ext_antenna_enable :=
            (case to_ext_antenna_enable w of None \<Rightarrow> ext_antenna_enable self | Some b \<Rightarrow> b)\<rparr>"

subsection \<open>The object after initialisation\<close>

text \<open>
  What a statement of \<open>init\<close> does to the data members of the object. A call of a
  member function defined in another file (\<open>setChargeQcEnable\<close>, \<open>setChargeEnable\<close>,
  \<open>imu_init\<close>, \<open>hid_init\<close>, \<open>rs485_init\<close>) assigns what the first argument gives for
  its name. The other statements assign none of them: a log, a call of the SDK, a call
  on the member objects \<open>ina226\<close> and \<open>rx8130\<close>, and the calls of \<open>delay\<close>,
  \<open>clearRtcIrq\<close>, \<open>update_system_time\<close> and \<open>set_gpio_output_capability\<close>, whose
  bodies in hal\_esp32.cpp assign no data member. The two pointers \<open>init\<close> stores,
  \<open>lvDisp\<close> and \<open>lvTouchpad\<close>, are not among the members of the record.
\<close>

fun init_stmt_effect :: "(string \<Rightarrow> flag_writes) \<Rightarrow> HalEsp32 \<Rightarrow> init_stmt \<Rightarrow> HalEsp32" where
  "init_stmt_effect writes self (Method f) =
     (if f \<in> set (defined_elsewhere_public @ defined_elsewhere_private)
      then defined_elsewhere (writes f) self
      else self)"
| "init_stmt_effect writes self (Log m) = self"
| "init_stmt_effect writes self (Sdk f) = self"

definition init :: "(string \<Rightarrow> flag_writes) \<Rightarrow> HalEsp32 \<Rightarrow> HalEsp32" where
  "init writes self = foldl (init_stmt_effect writes) self init_body"

subsection \<open>The operations of the object\<close>

text \<open>
  The public member functions of the class; its data members are private, so nothing
  else assigns them. \<open>TypeName\<close> is \<open>type\<close>, defined in the header. \<open>SdkOnly\<close> stands
  for the functions of hal\_esp32.cpp whose body only calls into the SDK and assigns no
  data member (\<open>delay\<close>, \<open>millis\<close>, \<open>getCpuTemp\<close>, \<open>lvglLock\<close>, \<open>lvglUnlock\<close>,
  \<open>clearRtcIrq\<close>, \<open>setRtcTime\<close>, \<open>usbCDetect\<close>, \<open>headPhoneDetect\<close>,
  \<open>initPortAI2c\<close>, \<open>deinitPortAI2c\<close>, \<open>gpioInitOutput\<close>, \<open>gpioSetLevel\<close>,
  \<open>gpioReset\<close>), named by the argument. \<open>Elsewhere\<close> stands for the functions of
  \<open>defined_elsewhere_public\<close>, named by the first argument; the second is what the call
  assigns.
\<close>

datatype public_op =
    TypeName
  | Init "string \<Rightarrow> flag_writes"
  | SetDisplayBrightness uint8_t
  | GetDisplayBrightness
  | IsSdCardMounted
  | ScanSdCard sd_card string
  | I2cScan "i2c_master_bus_handle_t \<Rightarrow> uint8_t \<Rightarrow> esp_err_t" bool
  | SdkOnly string
  | Elsewhere string flag_writes

text \<open>The object after an operation.\<close>

fun exec :: "public_op \<Rightarrow> HalEsp32 \<Rightarrow> HalEsp32" where
  "exec TypeName self = self"
| "exec (Init writes) self = init writes self"
| "exec (SetDisplayBrightness brightness) self = fst (setDisplayBrightness brightness self)"
| "exec GetDisplayBrightness self = self"
| "exec IsSdCardMounted self = self"
| "exec (ScanSdCard sd dirPath) self = fst (snd (scanSdCard sd self dirPath))"
| "exec (I2cScan i2c_master_probe isInternal) self = self"
| "exec (SdkOnly f) self = self"
| "exec (Elsewhere f w) self = defined_elsewhere w self"

text \<open>The object after a sequence of operations on a freshly constructed one.\<close>

definition run :: "public_op list \<Rightarrow> HalEsp32" where
  "run ops = foldl (\<lambda>self op. exec op self) HalEsp32_new ops"



subsection \<open>Observations on a sequence of calls\<close>

fun is_LogError :: "call \<Rightarrow> bool" where
  "is_LogError (LogError m args) = True"
| "is_LogError _ = False"

text \<open>The entries \<open>readdir\<close> yielded.\<close>

fun readdir_yields :: "call list \<Rightarrow> dirent list" where
  "readdir_yields [] = []"
| "readdir_yields (Readdir (Some entry) # t) = entry # readdir_yields t"
| "readdir_yields (c # t) = readdir_yields t"

text \<open>The calls that acquire or release the card or a directory handle.\<close>

fun is_resource_call :: "call \<Rightarrow> bool" where
  "is_resource_call (Bsp_sdcard_init p cs ret) = True"
| "is_resource_call (Bsp_sdcard_deinit p) = True"
| "is_resource_call (Opendir p ok) = True"
| "is_resource_call Closedir = True"
| "is_resource_call _ = False"

text \<open>
  What is held after a call, as a pair: the number of mounts of the card not yet undone
  and the number of directory handles not yet closed. A failed \<open>bsp_sdcard_init\<close> or
  \<open>opendir\<close> acquires nothing.
\<close>

fun hold :: "int \<times> int \<Rightarrow> call \<Rightarrow> int \<times> int" where
  "hold (m, d) (Bsp_sdcard_init p cs ret) = (if ret = ESP_OK then m + 1 else m, d)"
| "hold (m, d) (Bsp_sdcard_deinit p) = (m - 1, d)"
| "hold (m, d) (Opendir p ok) = (m, if ok then d + 1 else d)"
| "hold (m, d) Closedir = (m, d - 1)"
| "hold (m, d) _ = (m, d)"

definition held_after :: "call list \<Rightarrow> int \<times> int" where
  "held_after t = foldl hold (0, 0) t"

text \<open>The addresses probed, and the pins configured with the capability asked for.\<close>

fun probed :: "call list \<Rightarrow> uint8_t list" where
  "probed [] = []"
| "probed (I2c_master_probe h address timeout ret # t) = address # probed t"
| "probed (c # t) = probed t"

fun configured :: "call list \<Rightarrow> (gpio_num_t \<times> gpio_drive_cap_t) list" where
  "configured [] = []"
| "configured (Gpio_set_drive_capability gpio cap ret # t) = (gpio, cap) # configured t"
| "configured (c # t) = configured t"

section \<open>The GC2145 camera sensor configuration (Kconfig.gc2145)\<close>

text \<open>
  The file declares configuration symbols. A symbol with a prompt takes what the user
  selected in the menu when its dependencies hold, its default when the user selected
  nothing, and is off when its dependencies do not hold. The selection is \<open>None\<close> where
  the user selected nothing.
\<close>

datatype mipi_fmt =
    CAMERA_GC2145_MIPI_RGB565_1600x1200_7FPS
  | CAMERA_GC2145_MIPI_RGB565_800x600_30FPS

datatype dvp_fmt =
    CAMERA_GC2145_DVP_YUV422_640x480_15FPS
  | CAMERA_GC2145_DVP_YUV422_1600x1200_13FPS
  | CAMERA_GC2145_DVP_YUV422_800x600_20FPS

record menu =
  sel_CAMERA_GC2145 :: "bool option"
  sel_AUTO_DETECT :: "bool option"
  sel_AUTO_DETECT_MIPI_INTERFACE_SENSOR :: "bool option"
  sel_AUTO_DETECT_DVP_INTERFACE_SENSOR :: "bool option"
  sel_MIPI_DEFAULT_FMT :: "mipi_fmt option"
  sel_DVP_DEFAULT_FMT :: "dvp_fmt option"

definition untouched :: menu where
  "untouched =
     \<lparr>sel_CAMERA_GC2145 = None,
      sel_AUTO_DETECT = None,
      sel_AUTO_DETECT_MIPI_INTERFACE_SENSOR = None,
      sel_AUTO_DETECT_DVP_INTERFACE_SENSOR = None,
      sel_MIPI_DEFAULT_FMT = None,
      sel_DVP_DEFAULT_FMT = None\<rparr>"

text \<open>\<open>menuconfig CAMERA_GC2145\<close>: \<open>default n\<close>.\<close>

definition CAMERA_GC2145 :: "menu \<Rightarrow> bool" where
  "CAMERA_GC2145 u = (case sel_CAMERA_GC2145 u of None \<Rightarrow> False | Some b \<Rightarrow> b)"

text \<open>\<open>menuconfig CAMERA_GC2145_AUTO_DETECT\<close>, inside \<open>if CAMERA_GC2145\<close>: \<open>default y\<close>.\<close>

definition CAMERA_GC2145_AUTO_DETECT :: "menu \<Rightarrow> bool" where
  "CAMERA_GC2145_AUTO_DETECT u =
     (CAMERA_GC2145 u \<and> (case sel_AUTO_DETECT u of None \<Rightarrow> True | Some b \<Rightarrow> b))"

text \<open>The two symbols inside \<open>if CAMERA_GC2145_AUTO_DETECT\<close>: \<open>default y\<close> and \<open>default n\<close>.\<close>

definition CAMERA_GC2145_AUTO_DETECT_MIPI_INTERFACE_SENSOR :: "menu \<Rightarrow> bool" where
  "CAMERA_GC2145_AUTO_DETECT_MIPI_INTERFACE_SENSOR u =
     (CAMERA_GC2145_AUTO_DETECT u \<and>
      (case sel_AUTO_DETECT_MIPI_INTERFACE_SENSOR u of None \<Rightarrow> True | Some b \<Rightarrow> b))"

definition CAMERA_GC2145_AUTO_DETECT_DVP_INTERFACE_SENSOR :: "menu \<Rightarrow> bool" where
  "CAMERA_GC2145_AUTO_DETECT_DVP_INTERFACE_SENSOR u =
     (CAMERA_GC2145_AUTO_DETECT u \<and>
      (case sel_AUTO_DETECT_DVP_INTERFACE_SENSOR u of None \<Rightarrow> False | Some b \<Rightarrow> b))"

text \<open>
  The two choices, inside \<open>if CAMERA_GC2145\<close>: the member that is on, \<open>None\<close> when the
  choice is not visible.
\<close>

definition CAMERA_GC2145_MIPI_DEFAULT_FMT :: "menu \<Rightarrow> mipi_fmt option" where
  "CAMERA_GC2145_MIPI_DEFAULT_FMT u =
     (if CAMERA_GC2145 u then
        Some (case sel_MIPI_DEFAULT_FMT u of
                None \<Rightarrow> CAMERA_GC2145_MIPI_RGB565_800x600_30FPS
              | Some f \<Rightarrow> f)
      else None)"

definition CAMERA_GC2145_DVP_DEFAULT_FMT :: "menu \<Rightarrow> dvp_fmt option" where
  "CAMERA_GC2145_DVP_DEFAULT_FMT u =
     (if CAMERA_GC2145 u then
        Some (case sel_DVP_DEFAULT_FMT u of
                None \<Rightarrow> CAMERA_GC2145_DVP_YUV422_640x480_15FPS
              | Some f \<Rightarrow> f)
      else None)"

text \<open>
  The two \<open>int\<close> symbols without a prompt: the first \<open>default\<close> line whose condition
  holds, \<open>None\<close> when there is none.
\<close>

definition CAMERA_GC2145_MIPI_IF_FORMAT_INDEX_DAFAULT :: "menu \<Rightarrow> int option" where
  "CAMERA_GC2145_MIPI_IF_FORMAT_INDEX_DAFAULT u =
     (if CAMERA_GC2145_MIPI_DEFAULT_FMT u = Some CAMERA_GC2145_MIPI_RGB565_1600x1200_7FPS
      then Some 0
      else if CAMERA_GC2145_MIPI_DEFAULT_FMT u = Some CAMERA_GC2145_MIPI_RGB565_800x600_30FPS
      then Some 1
      else None)"

definition CAMERA_GC2145_DVP_IF_FORMAT_INDEX_DAFAULT :: "menu \<Rightarrow> int option" where
  "CAMERA_GC2145_DVP_IF_FORMAT_INDEX_DAFAULT u =
     (if CAMERA_GC2145_DVP_DEFAULT_FMT u = Some CAMERA_GC2145_DVP_YUV422_640x480_15FPS
      then Some 2
      else if CAMERA_GC2145_DVP_DEFAULT_FMT u = Some CAMERA_GC2145_DVP_YUV422_1600x1200_13FPS
      then Some 3
      else if CAMERA_GC2145_DVP_DEFAULT_FMT u = Some CAMERA_GC2145_DVP_YUV422_800x600_20FPS
      then Some 4
      else None)"

section \<open>Sample inputs\<close>

text \<open>A card that does not mount, a card without the directory, and a card with one.\<close>

definition card_absent :: sd_card where
  "card_absent = \<lparr>bsp_sdcard_init_ret = - 1, opendir_ret = (\<lambda>p. None)\<rparr>"

definition card_empty :: sd_card where
  "card_empty = \<lparr>bsp_sdcard_init_ret = 0, opendir_ret = (\<lambda>p. None)\<rparr>"

definition music_dir :: "dirent list" where
  "music_dir =
     [\<lparr>d_name = ''.'', d_type = 2\<rparr>,
      \<lparr>d_name = ''..'', d_type = 2\<rparr>,
      \<lparr>d_name = ''b.mp3'', d_type = 1\<rparr>,
      \<lparr>d_name = ''covers'', d_type = 2\<rparr>,
      \<lparr>d_name = ''a.mp3'', d_type = 1\<rparr>]"

definition card_music :: sd_card where
  "card_music =
     \<lparr>bsp_sdcard_init_ret = 0,
      opendir_ret = (\<lambda>p. if p = ''/sd/music'' then Some music_dir else None)\<rparr>"




section \<open>Properties of the SD card scan\<close>

lemma scan_loop_eq:
  "scan_loop dir file_entries =
     (file_entries @
        map (\<lambda>entry. \<lparr>name = d_name entry, isDir = (d_type entry = DT_DIR)\<rparr>)
          (filter (\<lambda>entry. d_name entry \<noteq> ''.'' \<and> d_name entry \<noteq> ''..'') dir),
      map (\<lambda>entry. Readdir (Some entry)) dir @ [Readdir None])"
  by (induction dir arbitrary: file_entries) simp_all

lemma readdir_yields_map:
  "readdir_yields (map (\<lambda>entry. Readdir (Some entry)) dir @ t) = dir @ readdir_yields t"
  by (induction dir) simp_all

lemma filter_resource_readdir:
  "filter is_resource_call (map (\<lambda>entry. Readdir (Some entry)) dir @ t) =
   filter is_resource_call t"
  by (induction dir) simp_all

lemma hold_readdir: "hold s (Readdir r) = s"
  by (cases s) simp

lemma foldl_hold_readdir:
  "foldl hold s (map (\<lambda>entry. Readdir (Some entry)) dir) = s"
  by (induction dir arbitrary: s) (simp_all add: hold_readdir)

lemma scanSdCard_flag:
  "sd_card_mounted (fst (snd (scanSdCard sd self dirPath))) =
     (if bsp_sdcard_init_ret sd \<noteq> ESP_OK then sd_card_mounted self else False)"
  by (simp add: scanSdCard_def Let_def split: option.splits prod.splits)


text \<open>
  C1. When \<open>bsp_sdcard_init\<close> returns a status other than \<open>ESP_OK\<close>, or \<open>opendir\<close>
  returns no handle for the target path \<open>/sd/\<close> followed by the argument,
  \<open>scanSdCard\<close> returns the empty list and has logged an error.
\<close>

theorem scanSdCard_failure:
  assumes "bsp_sdcard_init_ret sd \<noteq> ESP_OK \<or> opendir_ret sd (''/sd/'' @ dirPath) = None"
  shows "fst (scanSdCard sd self dirPath) = [] \<and>
         list_ex is_LogError (snd (snd (scanSdCard sd self dirPath)))"
  using assms by (auto simp: scanSdCard_def Let_def)

theorem scanSdCard_failure_witness:
  "(bsp_sdcard_init_ret card_absent \<noteq> ESP_OK \<and>
    fst (scanSdCard card_absent HalEsp32_new ''music'') = [] \<and>
    list_ex is_LogError (snd (snd (scanSdCard card_absent HalEsp32_new ''music'')))) \<and>
   (bsp_sdcard_init_ret card_empty = ESP_OK \<and>
    opendir_ret card_empty (''/sd/'' @ ''music'') = None \<and>
    fst (scanSdCard card_empty HalEsp32_new ''music'') = [] \<and>
    list_ex is_LogError (snd (snd (scanSdCard card_empty HalEsp32_new ''music''))))"
  using scanSdCard_failure [where sd = card_absent and dirPath = "''music''" and self = HalEsp32_new]
        scanSdCard_failure [where sd = card_empty and dirPath = "''music''" and self = HalEsp32_new]
  by (simp add: card_absent_def card_empty_def ESP_OK_def)

text \<open>
  C2. When the mount and \<open>opendir\<close> both succeed, \<open>scanSdCard\<close> returns one entry for
  each entry \<open>readdir\<close> yields whose name is neither \<open>.\<close> nor \<open>..\<close>, in the order
  \<open>readdir\<close> yields them; the entry's name is the \<open>d_name\<close>, and its \<open>isDir\<close> flag
  says whether the \<open>d_type\<close> is \<open>DT_DIR\<close>. The entries \<open>readdir\<close> yielded during the
  call are all the entries of the directory stream.
\<close>

theorem scanSdCard_entries:
  assumes "bsp_sdcard_init_ret sd = ESP_OK"
    and "opendir_ret sd (''/sd/'' @ dirPath) = Some dir"
  shows "fst (scanSdCard sd self dirPath) =
           map (\<lambda>entry. \<lparr>name = d_name entry, isDir = (d_type entry = DT_DIR)\<rparr>)
             (filter (\<lambda>entry. d_name entry \<noteq> ''.'' \<and> d_name entry \<noteq> ''..'') dir) \<and>
         readdir_yields (snd (snd (scanSdCard sd self dirPath))) = dir"
  using assms by (simp add: scanSdCard_def Let_def scan_loop_eq readdir_yields_map)

theorem scanSdCard_entries_witness:
  "bsp_sdcard_init_ret card_music = ESP_OK \<and>
   opendir_ret card_music (''/sd/'' @ ''music'') = Some music_dir \<and>
   fst (scanSdCard card_music HalEsp32_new ''music'') =
     [\<lparr>name = ''b.mp3'', isDir = False\<rparr>,
      \<lparr>name = ''covers'', isDir = True\<rparr>,
      \<lparr>name = ''a.mp3'', isDir = False\<rparr>] \<and>
   readdir_yields (snd (snd (scanSdCard card_music HalEsp32_new ''music''))) = music_dir"
proof -
  have ok: "bsp_sdcard_init_ret card_music = ESP_OK"
    by (simp add: card_music_def ESP_OK_def)
  have dir: "opendir_ret card_music (''/sd/'' @ ''music'') = Some music_dir"
    by (simp add: card_music_def)
  show ?thesis
    using ok dir scanSdCard_entries [OF ok dir, of HalEsp32_new]
    by (simp add: music_dir_def DT_DIR_def)
qed

text \<open>
  C5. \<open>scanSdCard\<close> holds nothing when it returns. Of the calls that acquire or release
  the card or a directory handle it makes exactly these, in this order: a failed
  \<open>bsp_sdcard_init\<close> alone; or a successful one, a failed \<open>opendir\<close> and
  \<open>bsp_sdcard_deinit\<close>; or a successful \<open>bsp_sdcard_init\<close>, a successful \<open>opendir\<close>,
  \<open>closedir\<close> and \<open>bsp_sdcard_deinit\<close>. So after the calls of every path no mount is
  left to undo and no handle left to close.
\<close>

theorem scanSdCard_releases:
  "filter is_resource_call (snd (snd (scanSdCard sd self dirPath))) =
     (if bsp_sdcard_init_ret sd \<noteq> ESP_OK then
        [Bsp_sdcard_init ''/sd'' 25 (bsp_sdcard_init_ret sd)]
      else case opendir_ret sd (''/sd/'' @ dirPath) of
        None \<Rightarrow>
          [Bsp_sdcard_init ''/sd'' 25 ESP_OK, Opendir (''/sd/'' @ dirPath) False,
           Bsp_sdcard_deinit ''/sd'']
      | Some dir \<Rightarrow>
          [Bsp_sdcard_init ''/sd'' 25 ESP_OK, Opendir (''/sd/'' @ dirPath) True, Closedir,
           Bsp_sdcard_deinit ''/sd'']) \<and>
   held_after (snd (snd (scanSdCard sd self dirPath))) = (0, 0)"
  by (simp add: scanSdCard_def Let_def scan_loop_eq filter_resource_readdir
      foldl_hold_readdir hold_readdir held_after_def split: option.splits)

section \<open>Properties of the object's state\<close>



lemma setDisplayBrightness_flag:
  "sd_card_mounted (fst (setDisplayBrightness brightness self)) = sd_card_mounted self"
  by (simp add: setDisplayBrightness_def Let_def)


lemma defined_elsewhere_flag:
  "sd_card_mounted (defined_elsewhere w self) = sd_card_mounted self"
  by (simp add: defined_elsewhere_def)


lemma init_stmt_effect_flag:
  "sd_card_mounted (init_stmt_effect writes self stmt) = sd_card_mounted self"
  by (cases stmt) (simp_all add: defined_elsewhere_flag)


lemma foldl_init_flag:
  "sd_card_mounted (foldl (init_stmt_effect writes) self stmts) = sd_card_mounted self"
  by (induction stmts arbitrary: self)
    (simp_all add: init_stmt_effect_flag del: init_stmt_effect.simps)


lemma init_flag: "sd_card_mounted (init writes self) = sd_card_mounted self"
  unfolding init_def by (rule foldl_init_flag)


lemma exec_flag: "\<not> sd_card_mounted self \<Longrightarrow> \<not> sd_card_mounted (exec op self)"
  by (cases op)
    (simp_all add: setDisplayBrightness_flag scanSdCard_flag init_flag defined_elsewhere_flag)


lemma foldl_exec_flag:
  "\<not> sd_card_mounted self \<Longrightarrow>
   \<not> sd_card_mounted (foldl (\<lambda>self op. exec op self) self ops)"
  by (induction ops arbitrary: self) (simp_all add: exec_flag del: exec.simps)

lemma run_flag: "\<not> sd_card_mounted (run ops)"
  unfolding run_def by (rule foldl_exec_flag) (simp add: HalEsp32_new_def)



text \<open>
  C4. \<open>isSdCardMounted\<close> does not read the flag: after every sequence of operations on a
  new object it returns \<open>true\<close> while \<open>_sd_card_mounted\<close> is \<open>false\<close>, so its result
  differs from the flag already on the new object.
\<close>

theorem isSdCardMounted_ignores_flag:
  "isSdCardMounted (run ops) = True \<and> sd_card_mounted (run ops) = False \<and>
   isSdCardMounted HalEsp32_new \<noteq> sd_card_mounted HalEsp32_new"
  by (simp add: isSdCardMounted_def run_flag HalEsp32_new_def)



section \<open>Properties of the touchpad read callback\<close>

lemma sint_ucast_16_32: "sint (ucast (w :: uint16_t) :: int32_t) = uint w"
proof -
  have up: "uint (ucast w :: int32_t) = uint w"
    by (rule uint_up_ucast) (simp add: is_up)
  have "uint w < 2 ^ 16"
    using uint_bounded [of w] by simp
  then have small: "uint w < 2 ^ 31"
    by simp
  have "sint (ucast w :: int32_t) = signed_take_bit 31 (uint (ucast w :: int32_t))"
    by (simp add: sint_uint)
  also have "\<dots> = uint w"
  proof -
    have "- (2 ^ 31) \<le> (0 :: int)"
      by simp
    also have "0 \<le> uint w"
      by simp
    finally have "- (2 ^ 31) \<le> uint w" .
    then show ?thesis
      unfolding up using small by (rule signed_take_bit_int_eq_self)
  qed
  finally show ?thesis .
qed

text \<open>
  C9. When the touch handle is \<open>NULL\<close>, or the controller reports no touch, the
  callback sets the state to released and changes nothing else, so the point stays as it
  was. Otherwise it sets the state to pressed and the point to the first coordinate pair
  the controller reported, with the same numeric values.
\<close>

theorem lvgl_read_cb_cases:
  "(lcd_touch_handle = None \<or>
    (\<exists>h. lcd_touch_handle = Some h \<and> \<not> touchpad_pressed (esp_lcd_touch_get_coordinates h)) \<longrightarrow>
      lvgl_read_cb lcd_touch_handle esp_lcd_touch_get_coordinates data =
        data\<lparr>state := LV_INDEV_STATE_REL\<rparr> \<and>
      point_x (lvgl_read_cb lcd_touch_handle esp_lcd_touch_get_coordinates data) = point_x data \<and>
      point_y (lvgl_read_cb lcd_touch_handle esp_lcd_touch_get_coordinates data) = point_y data) \<and>
   (lcd_touch_handle = Some h \<and> touchpad_pressed (esp_lcd_touch_get_coordinates h) \<longrightarrow>
      lvgl_read_cb lcd_touch_handle esp_lcd_touch_get_coordinates data =
        data\<lparr>state := LV_INDEV_STATE_PR,
             point_x := ucast (touch_x0 (esp_lcd_touch_get_coordinates h)),
             point_y := ucast (touch_y0 (esp_lcd_touch_get_coordinates h))\<rparr> \<and>
      sint (point_x (lvgl_read_cb lcd_touch_handle esp_lcd_touch_get_coordinates data)) =
        uint (touch_x0 (esp_lcd_touch_get_coordinates h)) \<and>
      sint (point_y (lvgl_read_cb lcd_touch_handle esp_lcd_touch_get_coordinates data)) =
        uint (touch_y0 (esp_lcd_touch_get_coordinates h)))"
  by (auto simp: lvgl_read_cb_def Let_def sint_ucast_16_32)

theorem lvgl_read_cb_cases_witness:
  "lvgl_read_cb (None :: nat option) (\<lambda>h. \<lparr>touchpad_pressed = True, touch_x0 = 5, touch_y0 = 6\<rparr>)
     \<lparr>point_x = 1, point_y = 2, state = LV_INDEV_STATE_PR\<rparr> =
     \<lparr>point_x = 1, point_y = 2, state = LV_INDEV_STATE_REL\<rparr> \<and>
   \<not> touchpad_pressed
       ((\<lambda>h. \<lparr>touchpad_pressed = False, touch_x0 = 5, touch_y0 = 6\<rparr>) (0 :: nat)) \<and>
   lvgl_read_cb (Some (0 :: nat)) (\<lambda>h. \<lparr>touchpad_pressed = False, touch_x0 = 5, touch_y0 = 6\<rparr>)
     \<lparr>point_x = 1, point_y = 2, state = LV_INDEV_STATE_PR\<rparr> =
     \<lparr>point_x = 1, point_y = 2, state = LV_INDEV_STATE_REL\<rparr> \<and>
   touchpad_pressed
     ((\<lambda>h. \<lparr>touchpad_pressed = True, touch_x0 = 700, touch_y0 = 65535\<rparr>) (0 :: nat)) \<and>
   lvgl_read_cb (Some (0 :: nat))
     (\<lambda>h. \<lparr>touchpad_pressed = True, touch_x0 = 700, touch_y0 = 65535\<rparr>)
     \<lparr>point_x = 1, point_y = 2, state = LV_INDEV_STATE_REL\<rparr> =
     \<lparr>point_x = 700, point_y = 65535, state = LV_INDEV_STATE_PR\<rparr>"
  using lvgl_read_cb_cases
          [where lcd_touch_handle = "None :: nat option"
             and esp_lcd_touch_get_coordinates =
               "\<lambda>h. \<lparr>touchpad_pressed = True, touch_x0 = 5, touch_y0 = 6\<rparr>"
             and data = "\<lparr>point_x = 1, point_y = 2, state = LV_INDEV_STATE_PR\<rparr>"]
        lvgl_read_cb_cases
          [where lcd_touch_handle = "Some (0 :: nat)"
             and esp_lcd_touch_get_coordinates =
               "\<lambda>h. \<lparr>touchpad_pressed = False, touch_x0 = 5, touch_y0 = 6\<rparr>"
             and data = "\<lparr>point_x = 1, point_y = 2, state = LV_INDEV_STATE_PR\<rparr>"]
        lvgl_read_cb_cases
          [where lcd_touch_handle = "Some (0 :: nat)" and h = 0
             and esp_lcd_touch_get_coordinates =
               "\<lambda>h. \<lparr>touchpad_pressed = True, touch_x0 = 700, touch_y0 = 65535\<rparr>"
             and data = "\<lparr>point_x = 1, point_y = 2, state = LV_INDEV_STATE_REL\<rparr>"]
  by simp

section \<open>Properties of the camera sensor configuration\<close>

text \<open>
  C8. With nothing selected, GC2145 support is off. With GC2145 support selected and
  nothing else, automatic detection is on, on for the MIPI interface and off for the DVP
  interface; the MIPI format is RGB565 800x600 30fps and its format index 1; the DVP
  format is YUV422 640x480 15fps and its format index 2.
\<close>

theorem gc2145_defaults:
  "CAMERA_GC2145 untouched = False \<and>
   CAMERA_GC2145_AUTO_DETECT (untouched\<lparr>sel_CAMERA_GC2145 := Some True\<rparr>) = True \<and>
   CAMERA_GC2145_AUTO_DETECT_MIPI_INTERFACE_SENSOR
     (untouched\<lparr>sel_CAMERA_GC2145 := Some True\<rparr>) = True \<and>
   CAMERA_GC2145_AUTO_DETECT_DVP_INTERFACE_SENSOR
     (untouched\<lparr>sel_CAMERA_GC2145 := Some True\<rparr>) = False \<and>
   CAMERA_GC2145_MIPI_DEFAULT_FMT (untouched\<lparr>sel_CAMERA_GC2145 := Some True\<rparr>) =
     Some CAMERA_GC2145_MIPI_RGB565_800x600_30FPS \<and>
   CAMERA_GC2145_MIPI_IF_FORMAT_INDEX_DAFAULT (untouched\<lparr>sel_CAMERA_GC2145 := Some True\<rparr>) =
     Some 1 \<and>
   CAMERA_GC2145_DVP_DEFAULT_FMT (untouched\<lparr>sel_CAMERA_GC2145 := Some True\<rparr>) =
     Some CAMERA_GC2145_DVP_YUV422_640x480_15FPS \<and>
   CAMERA_GC2145_DVP_IF_FORMAT_INDEX_DAFAULT (untouched\<lparr>sel_CAMERA_GC2145 := Some True\<rparr>) =
     Some 2"
  by (simp add: untouched_def CAMERA_GC2145_def CAMERA_GC2145_AUTO_DETECT_def
      CAMERA_GC2145_AUTO_DETECT_MIPI_INTERFACE_SENSOR_def
      CAMERA_GC2145_AUTO_DETECT_DVP_INTERFACE_SENSOR_def
      CAMERA_GC2145_MIPI_DEFAULT_FMT_def CAMERA_GC2145_DVP_DEFAULT_FMT_def
      CAMERA_GC2145_MIPI_IF_FORMAT_INDEX_DAFAULT_def CAMERA_GC2145_DVP_IF_FORMAT_INDEX_DAFAULT_def)

section \<open>Properties of the GPIO configuration\<close>

lemma gpio_loop_step:
  "i < length driver_gpios \<Longrightarrow>
   gpio_loop drv i =
     [Gpio_set_drive_capability (driver_gpios ! i) GPIO_DRIVE_CAP_0 (drv (driver_gpios ! i)),
      if drv (driver_gpios ! i) = ESP_OK
      then Printf ''GPIO %d drive capability set to GPIO_DRIVE_CAP_0\<newline>''
             [ArgInt (driver_gpios ! i)]
      else Printf ''Failed to set GPIO %d drive capability: %s\<newline>''
             [ArgInt (driver_gpios ! i), ArgErrName (drv (driver_gpios ! i))]]
     @ gpio_loop drv (Suc i)"
  by (subst gpio_loop.simps) (simp only: if_True Let_def Suc_eq_plus1)

lemma gpio_loop_done: "\<not> i < length driver_gpios \<Longrightarrow> gpio_loop drv i = []"
  by (subst gpio_loop.simps) (simp only: if_False)

lemma gpio_loop_eq:
  "gpio_loop drv i =
     concat (map (\<lambda>gpio.
                    [Gpio_set_drive_capability gpio GPIO_DRIVE_CAP_0 (drv gpio),
                     if drv gpio = ESP_OK
                     then Printf ''GPIO %d drive capability set to GPIO_DRIVE_CAP_0\<newline>''
                            [ArgInt gpio]
                     else Printf ''Failed to set GPIO %d drive capability: %s\<newline>''
                            [ArgInt gpio, ArgErrName (drv gpio)]])
               (drop i driver_gpios))"
proof (induction drv i rule: gpio_loop.induct)
  case (1 drv i)
  show ?case
  proof (cases "i < length driver_gpios")
    case True
    have d: "drop i driver_gpios = driver_gpios ! i # drop (Suc i) driver_gpios"
      using True by (simp add: Cons_nth_drop_Suc)
    show ?thesis
      using 1 [OF True refl refl]
      by (subst gpio_loop_step [OF True], subst d) simp
  next
    case False
    then show ?thesis
      by (simp add: gpio_loop_done)
  qed
qed

lemma configured_pins:
  "configured
     (concat (map (\<lambda>gpio. [Gpio_set_drive_capability gpio cap (drv gpio), if c gpio then Printf f (a gpio) else Printf g (b gpio)]) gpios)) =
   map (\<lambda>gpio. (gpio, cap)) gpios"
  by (induction gpios) simp_all

text \<open>
  C7. \<open>set_gpio_output_capability\<close> calls \<open>gpio_set_drive_capability\<close> with
  \<open>GPIO_DRIVE_CAP_0\<close> for every pin of \<open>_driver_gpios\<close>, in the order of the list and
  once per pin, each call followed by the message for its outcome, whatever the calls
  return: a failure is printed and the loop goes on. The list has 24 pins, all different.
  \<open>init\<close> calls the function once, as its last statement but one.
\<close>

theorem set_gpio_output_capability_visits_all:
  "set_gpio_output_capability drv =
     concat (map (\<lambda>gpio.
                    [Gpio_set_drive_capability gpio GPIO_DRIVE_CAP_0 (drv gpio),
                     if drv gpio = ESP_OK
                     then Printf ''GPIO %d drive capability set to GPIO_DRIVE_CAP_0\<newline>''
                            [ArgInt gpio]
                     else Printf ''Failed to set GPIO %d drive capability: %s\<newline>''
                            [ArgInt gpio, ArgErrName (drv gpio)]])
               driver_gpios) \<and>
   configured (set_gpio_output_capability drv) =
     map (\<lambda>gpio. (gpio, GPIO_DRIVE_CAP_0)) driver_gpios \<and>
   length driver_gpios = 24 \<and>
   distinct driver_gpios \<and>
   count_list init_body (Method ''set_gpio_output_capability'') = 1 \<and>
   drop (length init_body - 3) init_body =
     [Log ''set gpio output capability'', Method ''set_gpio_output_capability'',
      Sdk ''bsp_display_unlock'']"
proof -
  have len: "length driver_gpios = 24" and dist: "distinct driver_gpios"
    by (simp_all add: driver_gpios_def)
  have cnt: "count_list init_body (Method ''set_gpio_output_capability'') = 1"
    by (simp add: init_body_def)
  have tail: "drop (length init_body - 3) init_body =
     [Log ''set gpio output capability'', Method ''set_gpio_output_capability'',
      Sdk ''bsp_display_unlock'']"
    by (simp add: init_body_def)
  have all: "set_gpio_output_capability drv =
     concat (map (\<lambda>gpio.
                    [Gpio_set_drive_capability gpio GPIO_DRIVE_CAP_0 (drv gpio),
                     if drv gpio = ESP_OK
                     then Printf ''GPIO %d drive capability set to GPIO_DRIVE_CAP_0\<newline>''
                            [ArgInt gpio]
                     else Printf ''Failed to set GPIO %d drive capability: %s\<newline>''
                            [ArgInt gpio, ArgErrName (drv gpio)]])
               driver_gpios)"
    by (simp add: set_gpio_output_capability_def gpio_loop_eq)
  have conf: "configured (set_gpio_output_capability drv) =
     map (\<lambda>gpio. (gpio, GPIO_DRIVE_CAP_0)) driver_gpios"
    unfolding all by (rule configured_pins)
  from all conf len dist cnt tail show ?thesis
    by blast
qed

section \<open>Properties of the I2C scan\<close>

lemma probed_append: "probed (s @ t) = probed s @ probed t"
  by (induction s rule: probed.induct) simp_all

lemma i2c_inner_skip:
  "j < 16 \<Longrightarrow> 0x78 \<le> (word_of_int (i + j) :: uint8_t) \<Longrightarrow>
   i2c_inner p h i j addrs =
     (fst (i2c_inner p h i (j + 1) addrs), Fflush_stdout # snd (i2c_inner p h i (j + 1) addrs))"
  by (subst i2c_inner.simps) (simp add: Let_def case_prod_beta)

lemma i2c_inner_probe:
  "j < 16 \<Longrightarrow> \<not> 0x78 \<le> (word_of_int (i + j) :: uint8_t) \<Longrightarrow>
   i2c_inner p h i j addrs =
     (fst (i2c_inner p h i (j + 1)
             (if p h (word_of_int (i + j)) = ESP_OK then addrs @ [word_of_int (i + j)] else addrs)),
      Fflush_stdout #
      I2c_master_probe h (word_of_int (i + j)) 50 (p h (word_of_int (i + j))) #
      snd (i2c_inner p h i (j + 1)
             (if p h (word_of_int (i + j)) = ESP_OK then addrs @ [word_of_int (i + j)] else addrs)))"
  by (subst i2c_inner.simps) (simp add: Let_def case_prod_beta)

lemma i2c_inner_done: "\<not> j < 16 \<Longrightarrow> i2c_inner p h i j addrs = (addrs, [])"
  by (subst i2c_inner.simps) simp

lemma i2c_inner_eq:
  "j \<le> 16 \<Longrightarrow>
   fst (i2c_inner p h i j addrs) =
     addrs @ filter (\<lambda>a. p h a = ESP_OK)
               (filter (\<lambda>a. \<not> 0x78 \<le> a) (map word_of_int [i + j..i + 15])) \<and>
   probed (snd (i2c_inner p h i j addrs)) =
     filter (\<lambda>a. \<not> 0x78 \<le> a) (map word_of_int [i + j..i + 15])"
proof (induction p h i j addrs rule: i2c_inner.induct)
  case (1 p h i j addrs)
  show ?case
  proof (cases "j < 16")
    case False
    with 1 have "j = 16" by simp
    then show ?thesis
      by (simp add: i2c_inner_done)
  next
    case True
    then have up: "[i + j..i + 15] = (i + j) # [i + (j + 1)..i + 15]"
      by (simp add: upto_rec1 add.assoc)
    from True have le: "j + 1 \<le> 16" by simp
    show ?thesis
    proof (cases "0x78 \<le> (word_of_int (i + j) :: uint8_t)")
      case skip: True
      from 1(1) [OF True refl skip le] skip show ?thesis
        by (simp add: i2c_inner_skip [OF True skip] up)
    next
      case probe: False
      from 1(2) [OF True refl probe refl refl le] probe show ?thesis
        by (simp add: i2c_inner_probe [OF True probe] up)
    qed
  qed
qed

lemma i2c_outer_step:
  "i < 128 \<Longrightarrow>
   i2c_outer p h i addrs =
     (fst (i2c_outer p h (i + 16) (fst (i2c_inner p h i 0 addrs))),
      snd (i2c_inner p h i 0 addrs) @ snd (i2c_outer p h (i + 16) (fst (i2c_inner p h i 0 addrs))))"
  by (subst i2c_outer.simps) (simp add: Let_def case_prod_beta)

lemma i2c_outer_done: "\<not> i < 128 \<Longrightarrow> i2c_outer p h i addrs = (addrs, [])"
  by (subst i2c_outer.simps) simp

lemma i2c_outer_eq:
  "i mod 16 = 0 \<Longrightarrow> i \<le> 128 \<Longrightarrow>
   fst (i2c_outer p h i addrs) =
     addrs @ filter (\<lambda>a. p h a = ESP_OK)
               (filter (\<lambda>a. \<not> 0x78 \<le> a) (map word_of_int [i..127])) \<and>
   probed (snd (i2c_outer p h i addrs)) =
     filter (\<lambda>a. \<not> 0x78 \<le> a) (map word_of_int [i..127])"
proof (induction p h i addrs rule: i2c_outer.induct)
  case (1 p h i addrs)
  show ?case
  proof (cases "i < 128")
    case False
    with 1 have "i = 128" by simp
    then show ?thesis
      by (simp add: i2c_outer_done)
  next
    case True
    with 1(2) have le: "i + 16 \<le> 128" by presburger
    from 1(2) have md: "(i + 16) mod 16 = 0" by presburger
    have split: "[i..127] = [i..i + 15] @ [i + 16..127]"
    proof -
      have "[i..127] = [i..i + 15] @ [i + 15 + 1..127]"
        using le by (intro upto_split2) simp_all
      also have "i + 15 + 1 = i + 16"
        by simp
      finally show ?thesis .
    qed
    have inner: "fst (i2c_inner p h i 0 addrs) =
        addrs @ filter (\<lambda>a. p h a = ESP_OK)
                  (filter (\<lambda>a. \<not> 0x78 \<le> a) (map word_of_int [i..i + 15]))"
      "probed (snd (i2c_inner p h i 0 addrs)) =
        filter (\<lambda>a. \<not> 0x78 \<le> a) (map word_of_int [i..i + 15])"
      using i2c_inner_eq [of 0 p h i addrs] by simp_all
    from 1(1) [OF True refl prod.collapse md le] show ?thesis
      by (simp add: i2c_outer_step [OF True] inner split probed_append)
  qed
qed


lemma uint_address: "0 \<le> k \<Longrightarrow> k < 256 \<Longrightarrow> uint (word_of_int k :: uint8_t) = k"
  by (simp add: uint_word_of_int)

lemma address_skipped:
  "0 \<le> k \<Longrightarrow> k < 256 \<Longrightarrow> (0x78 \<le> (word_of_int k :: uint8_t)) = (120 \<le> k)"
  by (simp add: word_le_def uint_address)

lemma address_of:
  "a \<in> set (map word_of_int [m..n]) \<Longrightarrow> \<exists>k. a = word_of_int k \<and> m \<le> k \<and> k \<le> n"
  by auto

lemma scanned_addresses:
  "filter (\<lambda>a. \<not> 0x78 \<le> a) (map word_of_int [16..127]) =
   (map word_of_int [16..119] :: uint8_t list)"
proof -
  have "[16..127] = [16..119] @ [119 + 1..127]"
    by (rule upto_split2) simp_all
  also have "(119 :: int) + 1 = 120"
    by simp
  finally have split: "[16..127] = [16..119] @ [120..127]" .
  have low: "filter (\<lambda>a. \<not> 0x78 \<le> a) (map word_of_int [16..119]) =
      (map word_of_int [16..119] :: uint8_t list)"
  proof (rule filter_True, rule ballI)
    fix a :: uint8_t
    assume "a \<in> set (map word_of_int [16..119])"
    then obtain k where "a = word_of_int k" "16 \<le> k" "k \<le> 119"
      using address_of by blast
    then show "\<not> 0x78 \<le> a"
      by (simp add: address_skipped)
  qed
  have high: "filter (\<lambda>a. \<not> 0x78 \<le> a) (map word_of_int [120..127] :: uint8_t list) = []"
  proof (rule filter_False, rule ballI)
    fix a :: uint8_t
    assume "a \<in> set (map word_of_int [120..127])"
    then obtain k where "a = word_of_int k" "120 \<le> k" "k \<le> 127"
      using address_of by blast
    then show "\<not> \<not> 0x78 \<le> a"
      by (simp add: address_skipped)
  qed
  show ?thesis
    unfolding split by (simp only: map_append filter_append low high append_Nil2)
qed

lemma scanned_ascending: "sorted_wrt (<) (map word_of_int [16..119] :: uint8_t list)"
proof -
  have "sorted_wrt (\<lambda>k l. (word_of_int k :: uint8_t) < word_of_int l) [16..119]"
  proof (rule sorted_wrt_mono_rel [where P = "(<)"])
    fix k l :: int
    assume "k \<in> set [16..119]" "l \<in> set [16..119]" "k < l"
    then have "16 \<le> k" "k \<le> 119" "16 \<le> l" "l \<le> 119" "k < l"
      by (simp_all only: set_upto atLeastAtMost_iff)
    then show "(word_of_int k :: uint8_t) < word_of_int l"
      by (simp add: word_less_def uint_address)
  next
    show "sorted_wrt (<) [16..119 :: int]"
      by (rule sorted_wrt_upto)
  qed
  then show ?thesis
    by (simp only: sorted_wrt_map)
qed

lemma scanned_range:
  assumes "a \<in> set (map word_of_int [16..119] :: uint8_t list)"
  shows "0x10 \<le> a \<and> a \<le> 0x77"
proof -
  from assms obtain k where "a = word_of_int k" "16 \<le> k" "k \<le> 119"
    using address_of by blast
  then show ?thesis
    by (simp add: word_le_def uint_address)
qed

text \<open>
  C3. For either bus, \<open>i2cScan\<close> probes exactly the addresses 0x10 to 0x77, each once
  and in ascending order, and returns those for which the probe answered \<open>ESP_OK\<close>, in
  ascending order. No address below 0x10 or above 0x77 is probed or returned, and the
  result is empty when no probe answers \<open>ESP_OK\<close>.
\<close>

theorem i2cScan_addresses:
  "fst (i2cScan p isInternal) =
     filter (\<lambda>a. p (if isInternal then Bsp_i2c_handle else Bsp_ext_i2c_handle) a = ESP_OK)
       (map word_of_int [0x10..0x77]) \<and>
   probed (snd (i2cScan p isInternal)) = map word_of_int [0x10..0x77] \<and>
   sorted_wrt (<) (fst (i2cScan p isInternal)) \<and>
   (\<forall>a \<in> set (probed (snd (i2cScan p isInternal))). 0x10 \<le> a \<and> a \<le> 0x77) \<and>
   (\<forall>a \<in> set (fst (i2cScan p isInternal)). 0x10 \<le> a \<and> a \<le> 0x77) \<and>
   ((\<forall>a. p (if isInternal then Bsp_i2c_handle else Bsp_ext_i2c_handle) a \<noteq> ESP_OK) \<longrightarrow>
      fst (i2cScan p isInternal) = [])"
proof -
  let ?h = "if isInternal then Bsp_i2c_handle else Bsp_ext_i2c_handle"
  have m: "(16 :: int) mod 16 = 0" and l: "(16 :: int) \<le> 128"
    by simp_all
  note outer = i2c_outer_eq [OF m l, of p ?h "[]", unfolded scanned_addresses append_Nil]
  have scan: "i2cScan p isInternal = i2c_outer p ?h 16 []"
    by (simp only: i2cScan_def Let_def)
  have res: "fst (i2cScan p isInternal) =
      filter (\<lambda>a. p ?h a = ESP_OK) (map word_of_int [16..119])"
    unfolding scan by (rule outer [THEN conjunct1])
  have prb: "probed (snd (i2cScan p isInternal)) = map word_of_int [16..119]"
    unfolding scan by (rule outer [THEN conjunct2])
  have asc: "sorted_wrt (<) (fst (i2cScan p isInternal))"
    unfolding res by (rule sorted_wrt_filter) (rule scanned_ascending)
  have rng1: "\<forall>a \<in> set (probed (snd (i2cScan p isInternal))). 0x10 \<le> a \<and> a \<le> 0x77"
    unfolding prb using scanned_range by blast
  have rng2: "\<forall>a \<in> set (fst (i2cScan p isInternal)). 0x10 \<le> a \<and> a \<le> 0x77"
    unfolding res using scanned_range by (simp only: set_filter) blast
  have none: "(\<forall>a. p ?h a \<noteq> ESP_OK) \<longrightarrow> fst (i2cScan p isInternal) = []"
  proof
    assume "\<forall>a. p ?h a \<noteq> ESP_OK"
    then have "\<forall>a \<in> set (map word_of_int [16..119] :: uint8_t list). \<not> p ?h a = ESP_OK"
      by blast
    then show "fst (i2cScan p isInternal) = []"
      unfolding res by (rule filter_False)
  qed
  from res prb asc rng1 rng2 none show ?thesis
    by blast
qed


theorem i2cScan_addresses_witness:
  "fst (i2cScan (\<lambda>h a. if h = Bsp_i2c_handle \<and> a \<in> {0x0f, 0x10, 0x32, 0x41, 0x77, 0x78} then 0 else - 1) True) =
     [0x10, 0x32, 0x41, 0x77] \<and>
   (\<forall>a. (\<lambda>h a. if h = Bsp_i2c_handle \<and> a \<in> {0x0f, 0x10, 0x32, 0x41, 0x77, 0x78} then 0 else - 1)
          (if False then Bsp_i2c_handle else Bsp_ext_i2c_handle) (a :: uint8_t) \<noteq> ESP_OK) \<and>
   fst (i2cScan (\<lambda>h a. if h = Bsp_i2c_handle \<and> a \<in> {0x0f, 0x10, 0x32, 0x41, 0x77, 0x78} then 0 else - 1) False) = []"
  using i2cScan_addresses [of "\<lambda>h a. if h = Bsp_i2c_handle \<and> a \<in> {0x0f, 0x10, 0x32, 0x41, 0x77, 0x78} then 0 else - 1" True]
        i2cScan_addresses [of "\<lambda>h a. if h = Bsp_i2c_handle \<and> a \<in> {0x0f, 0x10, 0x32, 0x41, 0x77, 0x78} then 0 else - 1" False]
  by (simp add: ESP_OK_def)

end
